theory Spec2Isabelle
  imports Main
begin

section \<open>Documents\<close>

text \<open>
  The router \<^verbatim>\<open>app/routers/feedback.py\<close> works on four document collections:
  \<^verbatim>\<open>User\<close>, \<^verbatim>\<open>Feedback\<close>, \<^verbatim>\<open>FeedbackRequest\<close> and \<^verbatim>\<open>Notification\<close>. Each document
  class becomes a record with the fields the router reads and writes. Record fields
  share one name space, so every field carries the prefix of its class
  (\<open>fb_employee_id\<close> is \<^verbatim>\<open>Feedback.employee_id\<close>). A document identifier is a
  natural number, a point in time as well. The role of a user stays the string the
  router compares against \<^verbatim>\<open>"manager"\<close> and \<^verbatim>\<open>"employee"\<close>.
\<close>

type_synonym doc_id = nat
type_synonym timestamp = nat

record user =
  user_employee_id :: string
  user_name :: string
  user_role :: string

text \<open>An entry of \<^verbatim>\<open>Feedback.comments\<close>: the dictionary with the keys
  \<^verbatim>\<open>"employee_id"\<close> and \<^verbatim>\<open>"text"\<close>.\<close>

record comment_entry =
  c_employee_id :: string
  c_text :: string

record feedback =
  fb_id :: doc_id
  fb_employee_id :: string
  fb_manager_employee_id :: string
  fb_strengths :: string
  fb_improvement :: string
  fb_sentiment :: string
  fb_anonymous :: bool
  fb_tags :: "string list"
  fb_acknowledged :: bool
  fb_comments :: "comment_entry list"
  fb_created_at :: timestamp

record feedback_request =
  fr_id :: doc_id
  fr_employee_id :: string
  fr_manager_employee_id :: string
  fr_message :: string
  fr_seen :: bool
  fr_created_at :: timestamp

text \<open>
  The router builds a \<^verbatim>\<open>Notification\<close> from four fields and leaves \<^verbatim>\<open>seen\<close> and
  \<^verbatim>\<open>created_at\<close> to the defaults of the document class, which is declared in
  \<^verbatim>\<open>app/models/notification.py\<close>. Modelled from the spec: a new notification has
  \<^verbatim>\<open>seen = false\<close> and the time of its creation.
\<close>

record notification =
  ntf_id :: doc_id
  ntf_employee_id :: string
  ntf_manager_employee_id :: string
  ntf_manager_name :: string
  ntf_message :: string
  ntf_seen :: bool
  ntf_created_at :: timestamp

subsection \<open>Request bodies and responses\<close>

text \<open>\<^verbatim>\<open>FeedbackCreate\<close>; the router reads \<^verbatim>\<open>payload.tags or []\<close>, so the tags may be
  absent.\<close>

record feedback_create =
  fc_employee_id :: string
  fc_manager_employee_id :: string
  fc_strengths :: string
  fc_improvement :: string
  fc_sentiment :: string
  fc_anonymous :: bool
  fc_tags :: "string list option"

record feedback_request_in =
  fri_employee_id :: string
  fri_manager_employee_id :: string
  fri_message :: string


text \<open>
  \<^verbatim>\<open>FeedbackOut.from_feedback(fb, manager_name, comments)\<close> is declared in
  \<^verbatim>\<open>app/schemas/feedback.py\<close>; the router only calls it. A response of that class is
  kept as the three arguments of the call, the third one absent where the router passes
  two.
\<close>

record feedback_out =
  out_feedback :: feedback
  out_manager_name :: string
  out_comments :: "comment_entry list option"

definition from_feedback :: "feedback \<Rightarrow> string \<Rightarrow> comment_entry list option \<Rightarrow> feedback_out" where
  "from_feedback fb manager_name comments =
     \<lparr>out_feedback = fb, out_manager_name = manager_name, out_comments = comments\<rparr>"

text \<open>\<^verbatim>\<open>HTTPException(status_code, detail)\<close>.\<close>

datatype error = HTTPException nat string

text \<open>The state of the store: the four collections in insertion order, and the next
  unused document identifier.\<close>

record db =
  users :: "user list"
  feedbacks :: "feedback list"
  requests :: "feedback_request list"
  notifications :: "notification list"
  next_id :: doc_id

section \<open>The document store\<close>

text \<open>
  The operations of the document classes the router calls. \<^verbatim>\<open>find_one\<close> gives the
  first document that satisfies the filter, \<^verbatim>\<open>find(...).to_list()\<close> all of them in
  the collection's order, \<^verbatim>\<open>get\<close> the document with an identifier. \<^verbatim>\<open>save\<close> replaces
  the stored document that has the identifier of the saved one (and stores it when
  there is none), \<^verbatim>\<open>delete\<close> removes it, and \<^verbatim>\<open>find(...).delete()\<close> removes every
  document that satisfies the filter and gives the result object of the driver.
\<close>

definition find_one :: "('a \<Rightarrow> bool) \<Rightarrow> 'a list \<Rightarrow> 'a option" where
  "find_one P xs = List.find P xs"

definition find_all :: "('a \<Rightarrow> bool) \<Rightarrow> 'a list \<Rightarrow> 'a list" where
  "find_all P xs = filter P xs"

definition get_doc :: "('a \<Rightarrow> doc_id) \<Rightarrow> doc_id \<Rightarrow> 'a list \<Rightarrow> 'a option" where
  "get_doc idf i xs = List.find (\<lambda>d. idf d = i) xs"

fun save_doc :: "('a \<Rightarrow> doc_id) \<Rightarrow> 'a \<Rightarrow> 'a list \<Rightarrow> 'a list" where
  "save_doc idf d [] = [d]"
| "save_doc idf d (x # xs) = (if idf x = idf d then d # xs else x # save_doc idf d xs)"

fun delete_doc :: "('a \<Rightarrow> doc_id) \<Rightarrow> doc_id \<Rightarrow> 'a list \<Rightarrow> 'a list" where
  "delete_doc idf i [] = []"
| "delete_doc idf i (x # xs) = (if idf x = i then xs else x # delete_doc idf i xs)"

text \<open>
  The driver's \<^verbatim>\<open>DeleteResult\<close>: the reply of the server, of which only the number of
  removed documents (its entry \<^verbatim>\<open>n\<close>, read by \<^verbatim>\<open>deleted_count\<close>) is kept, and whether
  the write was acknowledged, which it is under the default write concern.
\<close>

record delete_result =
  dr_n :: nat
  dr_acknowledged :: bool

definition delete_many :: "('a \<Rightarrow> bool) \<Rightarrow> 'a list \<Rightarrow> 'a list \<times> delete_result" where
  "delete_many P xs =
     (filter (\<lambda>d. \<not> P d) xs, \<lparr>dr_n = length (filter P xs), dr_acknowledged = True\<rparr>)"

text \<open>
  An f-string prints the object itself, which for a \<^verbatim>\<open>DeleteResult\<close> is
  \<^verbatim>\<open>DeleteResult(<reply>, acknowledged=<bool>)\<close>. How the reply of the server prints is
  the parameter \<open>repr_raw\<close>, a function of the number of removed documents it records.
\<close>

definition repr_delete_result :: "(nat \<Rightarrow> string) \<Rightarrow> delete_result \<Rightarrow> string" where
  "repr_delete_result repr_raw d =
     ''DeleteResult('' @ repr_raw (dr_n d) @ '', acknowledged='' @
       (if dr_acknowledged d then ''True'' else ''False'') @ '')''"

section \<open>The endpoints\<close>

text \<open>
  An endpoint takes the store (and the current time, where the router reads the clock)
  and gives its response together with the store it leaves behind. A raised
  \<^verbatim>\<open>HTTPException\<close> is the left summand of the response.
\<close>

definition is_manager :: "string \<Rightarrow> user \<Rightarrow> bool" where
  "is_manager i u \<longleftrightarrow> user_employee_id u = i \<and> user_role u = ''manager''"

definition is_employee :: "string \<Rightarrow> user \<Rightarrow> bool" where
  "is_employee i u \<longleftrightarrow> user_employee_id u = i \<and> user_role u = ''employee''"

definition has_id :: "string \<Rightarrow> user \<Rightarrow> bool" where
  "has_id i u \<longleftrightarrow> user_employee_id u = i"

definition tags_or_empty :: "string list option \<Rightarrow> string list" where
  "tags_or_empty t = (case t of None \<Rightarrow> [] | Some ts \<Rightarrow> ts)"

definition create_feedback :: "db \<Rightarrow> timestamp \<Rightarrow> feedback_create \<Rightarrow> (error + feedback_out) \<times> db" where
  "create_feedback s now payload =
     (case find_one (is_manager (fc_manager_employee_id payload)) (users s) of
        None \<Rightarrow> (Inl (HTTPException 404 ''Manager not found''), s)
      | Some mgr \<Rightarrow>
          (case find_one (is_employee (fc_employee_id payload)) (users s) of
             None \<Rightarrow> (Inl (HTTPException 404 ''Employee not found''), s)
           | Some employee \<Rightarrow>
               let fb = \<lparr>fb_id = next_id s,
                         fb_employee_id = fc_employee_id payload,
                         fb_manager_employee_id = fc_manager_employee_id payload,
                         fb_strengths = fc_strengths payload,
                         fb_improvement = fc_improvement payload,
                         fb_sentiment = fc_sentiment payload,
                         fb_anonymous = fc_anonymous payload,
                         fb_tags = tags_or_empty (fc_tags payload),
                         fb_acknowledged = False,
                         fb_comments = [],
                         fb_created_at = now\<rparr>;
                   s1 = s\<lparr>feedbacks := feedbacks s @ [fb], next_id := Suc (next_id s)\<rparr>;
                   n = \<lparr>ntf_id = next_id s1,
                        ntf_employee_id = fc_employee_id payload,
                        ntf_manager_employee_id = user_employee_id mgr,
                        ntf_manager_name = user_name mgr,
                        ntf_message = ''You have received new feedback from manager '' @ user_name mgr,
                        ntf_seen = False,
                        ntf_created_at = now\<rparr>;
                   s2 = s1\<lparr>notifications := notifications s1 @ [n], next_id := Suc (next_id s1)\<rparr>
               in (Inr (from_feedback fb (user_name mgr) None), s2)))"

definition request_feedback :: "db \<Rightarrow> timestamp \<Rightarrow> feedback_request_in \<Rightarrow> (error + string) \<times> db" where
  "request_feedback s now payload =
     (case find_one (is_employee (fri_employee_id payload)) (users s) of
        None \<Rightarrow> (Inl (HTTPException 404 ''Employee not found''), s)
      | Some emp \<Rightarrow>
          (case find_one (is_manager (fri_manager_employee_id payload)) (users s) of
             None \<Rightarrow> (Inl (HTTPException 404 ''Manager not found''), s)
           | Some mgr \<Rightarrow>
               let fr = \<lparr>fr_id = next_id s,
                         fr_employee_id = fri_employee_id payload,
                         fr_manager_employee_id = fri_manager_employee_id payload,
                         fr_message = fri_message payload,
                         fr_seen = False,
                         fr_created_at = now\<rparr>;
                   s1 = s\<lparr>requests := requests s @ [fr], next_id := Suc (next_id s)\<rparr>;
                   n = \<lparr>ntf_id = next_id s1,
                        ntf_employee_id = fri_manager_employee_id payload,
                        ntf_manager_employee_id = fri_manager_employee_id payload,
                        ntf_manager_name = user_name mgr,
                        ntf_message = ''Feedback request from employee '' @ fri_employee_id payload,
                        ntf_seen = False,
                        ntf_created_at = now\<rparr>;
                   s2 = s1\<lparr>notifications := notifications s1 @ [n], next_id := Suc (next_id s1)\<rparr>
               in (Inr ''Feedback request submitted successfully'', s2)))"

definition mark_feedback_request_seen :: "db \<Rightarrow> doc_id \<Rightarrow> (error + string) \<times> db" where
  "mark_feedback_request_seen s request_id =
     (case get_doc fr_id request_id (requests s) of
        None \<Rightarrow> (Inl (HTTPException 404 ''Feedback request not found''), s)
      | Some req \<Rightarrow>
          (Inr ''Feedback request marked as seen'',
           s\<lparr>requests := save_doc fr_id (req\<lparr>fr_seen := True\<rparr>) (requests s)\<rparr>))"

text \<open>\<^verbatim>\<open>markdown2.markdown\<close> is a parameter of the two history endpoints.\<close>

definition comments_html :: "(string \<Rightarrow> string) \<Rightarrow> feedback \<Rightarrow> comment_entry list" where
  "comments_html markdown fb =
     map (\<lambda>c. \<lparr>c_employee_id = c_employee_id c, c_text = markdown (c_text c)\<rparr>) (fb_comments fb)"

definition history_entry :: "(string \<Rightarrow> string) \<Rightarrow> db \<Rightarrow> feedback \<Rightarrow> feedback_out" where
  "history_entry markdown s fb =
     (let mgr = find_one (has_id (fb_manager_employee_id fb)) (users s)
      in from_feedback fb
           (case mgr of Some m \<Rightarrow> user_name m | None \<Rightarrow> ''Unknown'')
           (Some (comments_html markdown fb)))"

definition get_feedback_history :: "(string \<Rightarrow> string) \<Rightarrow> db \<Rightarrow> string \<Rightarrow> feedback_out list" where
  "get_feedback_history markdown s employee_id =
     map (history_entry markdown s) (find_all (\<lambda>fb. fb_employee_id fb = employee_id) (feedbacks s))"

definition acknowledge :: "db \<Rightarrow> timestamp \<Rightarrow> doc_id \<Rightarrow> (error + string) \<times> db" where
  "acknowledge s now feedback_id =
     (case get_doc fb_id feedback_id (feedbacks s) of
        None \<Rightarrow> (Inl (HTTPException 404 ''Feedback not found''), s)
      | Some fb0 \<Rightarrow>
          let fb = fb0\<lparr>fb_acknowledged := True\<rparr>;
              s1 = s\<lparr>feedbacks := save_doc fb_id fb (feedbacks s)\<rparr>
          in (case find_one (has_id (fb_manager_employee_id fb)) (users s1) of
                None \<Rightarrow> (Inr ''Feedback acknowledged'', s1)
              | Some mgr \<Rightarrow>
                  let n = \<lparr>ntf_id = next_id s1,
                           ntf_employee_id = fb_manager_employee_id fb,
                           ntf_manager_employee_id = fb_manager_employee_id fb,
                           ntf_manager_name = user_name mgr,
                           ntf_message = ''Employee '' @ fb_employee_id fb @ '' acknowledged your feedback.'',
                           ntf_seen = False,
                           ntf_created_at = now\<rparr>
                  in (Inr ''Feedback acknowledged'',
                      s1\<lparr>notifications := notifications s1 @ [n], next_id := Suc (next_id s1)\<rparr>)))"

definition update_feedback :: "db \<Rightarrow> doc_id \<Rightarrow> feedback_create \<Rightarrow> (error + feedback_out) \<times> db" where
  "update_feedback s feedback_id upd =
     (case get_doc fb_id feedback_id (feedbacks s) of
        None \<Rightarrow> (Inl (HTTPException 404 ''Feedback not found''), s)
      | Some fb0 \<Rightarrow>
          (case find_one (is_manager (fc_manager_employee_id upd)) (users s) of
             None \<Rightarrow> (Inl (HTTPException 403 ''Not authorized''), s)
           | Some mgr \<Rightarrow>
               if fb_manager_employee_id fb0 \<noteq> user_employee_id mgr
               then (Inl (HTTPException 403 ''Not authorized''), s)
               else
                 let fb = fb0\<lparr>fb_strengths := fc_strengths upd,
                              fb_improvement := fc_improvement upd,
                              fb_sentiment := fc_sentiment upd,
                              fb_tags := tags_or_empty (fc_tags upd),
                              fb_anonymous := fc_anonymous upd\<rparr>
                 in (Inr (from_feedback fb (user_name mgr) None),
                     s\<lparr>feedbacks := save_doc fb_id fb (feedbacks s)\<rparr>)))"

definition delete_feedback :: "db \<Rightarrow> doc_id \<Rightarrow> (error + string) \<times> db" where
  "delete_feedback s feedback_id =
     (case get_doc fb_id feedback_id (feedbacks s) of
        None \<Rightarrow> (Inl (HTTPException 404 ''Feedback not found''), s)
      | Some fb \<Rightarrow>
          (case find_one (is_manager (fb_manager_employee_id fb)) (users s) of
             None \<Rightarrow> (Inl (HTTPException 403 ''Not authorized''), s)
           | Some mgr \<Rightarrow>
               (Inr ''Deleted'', s\<lparr>feedbacks := delete_doc fb_id (fb_id fb) (feedbacks s)\<rparr>)))"

definition delete_all :: "(nat \<Rightarrow> string) \<Rightarrow> db \<Rightarrow> string \<Rightarrow> (error + string) \<times> db" where
  "delete_all repr_raw s manager_id =
     (case find_one (is_manager manager_id) (users s) of
        None \<Rightarrow> (Inl (HTTPException 403 ''Not authorized''), s)
      | Some mgr \<Rightarrow>
          let (rest, deleted) = delete_many (\<lambda>fb. fb_manager_employee_id fb = manager_id) (feedbacks s)
          in (Inr (''Deleted '' @ repr_delete_result repr_raw deleted @ '' items''),
              s\<lparr>feedbacks := rest\<rparr>))"


definition update_notification_seen :: "db \<Rightarrow> doc_id \<Rightarrow> bool \<Rightarrow> (error + string) \<times> db" where
  "update_notification_seen s notification_id seen =
     (case get_doc ntf_id notification_id (notifications s) of
        None \<Rightarrow> (Inl (HTTPException 404 ''Notification not found''), s)
      | Some notif \<Rightarrow>
          (Inr ''Notification updated'',
           s\<lparr>notifications := save_doc ntf_id (notif\<lparr>ntf_seen := seen\<rparr>) (notifications s)\<rparr>))"

section \<open>A small store\<close>

text \<open>
  The store the example runs start from: two managers, one employee and one feedback of
  manager M1 for employee E1. In \<open>orphan_db\<close> the account of the manager is gone.
\<close>

definition alice :: user where
  "alice = \<lparr>user_employee_id = ''M1'', user_name = ''Alice'', user_role = ''manager''\<rparr>"

definition bob :: user where
  "bob = \<lparr>user_employee_id = ''E1'', user_name = ''Bob'', user_role = ''employee''\<rparr>"

definition carol :: user where
  "carol = \<lparr>user_employee_id = ''M2'', user_name = ''Carol'', user_role = ''manager''\<rparr>"

definition fb0 :: feedback where
  "fb0 = \<lparr>fb_id = 0, fb_employee_id = ''E1'', fb_manager_employee_id = ''M1'',
          fb_strengths = ''clear'', fb_improvement = ''tests'', fb_sentiment = ''positive'',
          fb_anonymous = False, fb_tags = [''q1''], fb_acknowledged = False,
          fb_comments = [], fb_created_at = 3\<rparr>"

definition ntf1 :: notification where
  "ntf1 = \<lparr>ntf_id = 1, ntf_employee_id = ''E1'', ntf_manager_employee_id = ''M1'',
           ntf_manager_name = ''Alice'',
           ntf_message = ''You have received new feedback from manager Alice'',
           ntf_seen = False, ntf_created_at = 3\<rparr>"

definition fr2 :: feedback_request where
  "fr2 = \<lparr>fr_id = 2, fr_employee_id = ''E1'', fr_manager_employee_id = ''M1'',
          fr_message = ''please review'', fr_seen = False, fr_created_at = 4\<rparr>"

definition demo_db :: db where
  "demo_db = \<lparr>users = [alice, bob, carol], feedbacks = [fb0], requests = [fr2],
              notifications = [ntf1], next_id = 3\<rparr>"

definition orphan_db :: db where
  "orphan_db = \<lparr>users = [bob], feedbacks = [fb0], requests = [], notifications = [],
                next_id = 1\<rparr>"

definition empty_db :: db where
  "empty_db = \<lparr>users = [], feedbacks = [], requests = [], notifications = [], next_id = 0\<rparr>"

definition new_fb :: feedback_create where
  "new_fb = \<lparr>fc_employee_id = ''E1'', fc_manager_employee_id = ''M1'',
             fc_strengths = ''calm'', fc_improvement = ''docs'', fc_sentiment = ''neutral'',
             fc_anonymous = True, fc_tags = None\<rparr>"

definition tagged_fb :: feedback_create where
  "tagged_fb = \<lparr>fc_employee_id = ''E1'', fc_manager_employee_id = ''M1'',
                fc_strengths = ''bold'', fc_improvement = ''pace'', fc_sentiment = ''negative'',
                fc_anonymous = True, fc_tags = Some [''q2'', ''q3'']\<rparr>"

definition new_req :: feedback_request_in where
  "new_req = \<lparr>fri_employee_id = ''E1'', fri_manager_employee_id = ''M1'',
              fri_message = ''please review''\<rparr>"



lemmas store_defs =
  find_one_def find_all_def get_doc_def delete_many_def is_manager_def is_employee_def
  has_id_def tags_or_empty_def from_feedback_def Let_def

lemmas demo_defs =
  alice_def bob_def carol_def fb0_def ntf1_def fr2_def demo_db_def orphan_db_def
  empty_db_def new_fb_def new_req_def

section \<open>Facts about the store\<close>

lemma get_doc_id: "get_doc idf i xs = Some d \<Longrightarrow> idf d = i"
  by (auto simp: get_doc_def find_Some_iff)


lemma get_doc_save_doc: "get_doc idf (idf d) (save_doc idf d xs) = Some d"
  by (induction xs) (simp_all add: get_doc_def)

lemma get_doc_save_doc_other:
  "i \<noteq> idf d \<Longrightarrow> get_doc idf i (save_doc idf d xs) = get_doc idf i xs"
  by (induction xs) (auto simp: get_doc_def)

lemma save_doc_mem: "d \<in> set (save_doc idf d xs)"
  by (induction xs) simp_all

lemma length_save_doc:
  "get_doc idf (idf d) xs = Some d0 \<Longrightarrow> length (save_doc idf d xs) = length xs"
  by (induction xs) (auto simp: get_doc_def split: if_splits)

lemma find_one_is_manager_id:
  "find_one (is_manager i) us = Some mgr \<Longrightarrow> user_employee_id mgr = i \<and> user_role mgr = ''manager''"
  by (auto simp: find_one_def is_manager_def find_Some_iff)

lemma find_one_is_employee_id:
  "find_one (is_employee i) us = Some emp \<Longrightarrow> user_employee_id emp = i \<and> user_role emp = ''employee''"
  by (auto simp: find_one_def is_employee_def find_Some_iff)

section \<open>submit feedback\<close>

text \<open>
  C1. Let the directory resolve the manager identifier of the payload to a user with role
  manager and its employee identifier to a user with role employee. Then
  \<open>create_feedback\<close> succeeds and leaves the store with exactly one more feedback, not
  acknowledged and without comments, and exactly one more notification, whose recipient
  is the employee of the payload and whose message is "You have received new feedback
  from manager" followed by the manager's name; users and requests stay as they were.
  If one of the two lookups finds nothing, the call fails with status 404 and the store
  is the one it started from.
\<close>

theorem create_feedback_one_feedback_one_notification:
  assumes "create_feedback s now p = (r, s')"
  shows
    "(find_one (is_manager (fc_manager_employee_id p)) (users s) = Some mgr \<and>
      find_one (is_employee (fc_employee_id p)) (users s) = Some emp \<longrightarrow>
        r = Inr (from_feedback (last (feedbacks s')) (user_name mgr) None) \<and>
        feedbacks s' = feedbacks s @ [last (feedbacks s')] \<and>
        notifications s' = notifications s @ [last (notifications s')] \<and>
        users s' = users s \<and> requests s' = requests s \<and>
        fb_employee_id (last (feedbacks s')) = fc_employee_id p \<and>
        fb_manager_employee_id (last (feedbacks s')) = fc_manager_employee_id p \<and>
        \<not> fb_acknowledged (last (feedbacks s')) \<and>
        fb_comments (last (feedbacks s')) = [] \<and>
        ntf_employee_id (last (notifications s')) = fc_employee_id p \<and>
        ntf_message (last (notifications s')) =
          ''You have received new feedback from manager '' @ user_name mgr) \<and>
     (find_one (is_manager (fc_manager_employee_id p)) (users s) = None \<or>
      find_one (is_employee (fc_employee_id p)) (users s) = None \<longrightarrow>
        r = Inl (HTTPException 404
              (if find_one (is_manager (fc_manager_employee_id p)) (users s) = None
               then ''Manager not found'' else ''Employee not found'')) \<and>
        s' = s)"
  using assms
  by (auto simp: create_feedback_def Let_def split: option.splits)

theorem create_feedback_one_feedback_one_notification_witness:
  "find_one (is_manager (fc_manager_employee_id new_fb)) (users demo_db) = Some alice \<and>
   find_one (is_employee (fc_employee_id new_fb)) (users demo_db) = Some bob \<and>
   length (feedbacks (snd (create_feedback demo_db 9 new_fb))) = 2 \<and>
   length (notifications (snd (create_feedback demo_db 9 new_fb))) = 2 \<and>
   ntf_message (last (notifications (snd (create_feedback demo_db 9 new_fb)))) =
     ''You have received new feedback from manager Alice'' \<and>
   find_one (is_manager (fc_manager_employee_id new_fb)) (users orphan_db) = None \<and>
   create_feedback orphan_db 9 new_fb = (Inl (HTTPException 404 ''Manager not found''), orphan_db)"
  using create_feedback_one_feedback_one_notification
      [of demo_db 9 new_fb "fst (create_feedback demo_db 9 new_fb)"
          "snd (create_feedback demo_db 9 new_fb)" alice bob]
    create_feedback_one_feedback_one_notification
      [of orphan_db 9 new_fb "fst (create_feedback orphan_db 9 new_fb)"
          "snd (create_feedback orphan_db 9 new_fb)" alice bob]
  by (simp add: create_feedback_def store_defs demo_defs)

section \<open>update feedback\<close>

text \<open>
  C2. Let the feedback identifier resolve to a stored feedback. For every update whose
  manager identifier differs from the stored one, also when it names another manager
  account, \<open>update_feedback\<close> fails with status 403 and the store, and with it the
  feedback, is exactly the store before the call.
\<close>

theorem update_feedback_other_manager_forbidden:
  assumes "get_doc fb_id fid (feedbacks s) = Some fb"
    and "fc_manager_employee_id upd \<noteq> fb_manager_employee_id fb"
  shows "update_feedback s fid upd = (Inl (HTTPException 403 ''Not authorized''), s)"
  using assms
  by (auto simp: update_feedback_def dest: find_one_is_manager_id split: option.splits)

theorem update_feedback_other_manager_forbidden_witness:
  "get_doc fb_id 0 (feedbacks demo_db) = Some fb0 \<and>
   fc_manager_employee_id (new_fb\<lparr>fc_manager_employee_id := ''M2''\<rparr>) \<noteq> fb_manager_employee_id fb0 \<and>
   find_one (is_manager ''M2'') (users demo_db) = Some carol \<and>
   update_feedback demo_db 0 (new_fb\<lparr>fc_manager_employee_id := ''M2''\<rparr>) =
     (Inl (HTTPException 403 ''Not authorized''), demo_db)"
  using update_feedback_other_manager_forbidden
    [of 0 demo_db fb0 "new_fb\<lparr>fc_manager_employee_id := ''M2''\<rparr>"]
  by (simp add: store_defs demo_defs)

text \<open>
  C5. Let the feedback identifier resolve to a stored feedback and let \<open>update_feedback\<close>
  succeed. Then the caller named the stored manager, and the stored feedback is the old
  one with strengths, improvement, sentiment, tags (a supplied list as it is, none
  supplied as the empty list) and anonymous replaced by the supplied values: whatever a
  later read by identifier returns has these five values and the acknowledged flag and
  the comments of the feedback before the update. The listing for the employee of the
  feedback returns the updated feedback, and the other collections are unchanged.
\<close>

theorem update_feedback_replaces_five_fields:
  assumes "get_doc fb_id fid (feedbacks s) = Some fb"
    and "update_feedback s fid upd = (Inr out, s')"
  shows
    "fc_manager_employee_id upd = fb_manager_employee_id fb \<and>
     get_doc fb_id fid (feedbacks s') =
       Some (fb\<lparr>fb_strengths := fc_strengths upd,
                 fb_improvement := fc_improvement upd,
                 fb_sentiment := fc_sentiment upd,
                 fb_tags := (case fc_tags upd of None \<Rightarrow> [] | Some ts \<Rightarrow> ts),
                 fb_anonymous := fc_anonymous upd\<rparr>) \<and>
     (\<forall>fb'. get_doc fb_id fid (feedbacks s') = Some fb' \<longrightarrow>
        fb_strengths fb' = fc_strengths upd \<and>
        fb_improvement fb' = fc_improvement upd \<and>
        fb_sentiment fb' = fc_sentiment upd \<and>
        fb_tags fb' = (case fc_tags upd of None \<Rightarrow> [] | Some ts \<Rightarrow> ts) \<and>
        (\<forall>ts. fc_tags upd = Some ts \<longrightarrow> fb_tags fb' = ts) \<and>
        (fc_tags upd = None \<longrightarrow> fb_tags fb' = []) \<and>
        fb_anonymous fb' = fc_anonymous upd \<and>
        fb_acknowledged fb' = fb_acknowledged fb \<and>
        fb_comments fb' = fb_comments fb \<and>
        out_feedback out = fb' \<and>
        history_entry markdown s' fb' \<in> set (get_feedback_history markdown s' (fb_employee_id fb))) \<and>
     users s' = users s \<and> requests s' = requests s \<and> notifications s' = notifications s \<and>
     length (feedbacks s') = length (feedbacks s)"
proof -
  let ?fb = "fb\<lparr>fb_strengths := fc_strengths upd,
                 fb_improvement := fc_improvement upd,
                 fb_sentiment := fc_sentiment upd,
                 fb_tags := (case fc_tags upd of None \<Rightarrow> [] | Some ts \<Rightarrow> ts),
                 fb_anonymous := fc_anonymous upd\<rparr>"
  from assms obtain mgr where
    mgr: "find_one (is_manager (fc_manager_employee_id upd)) (users s) = Some mgr"
    and own: "fb_manager_employee_id fb = user_employee_id mgr"
    and out: "out = from_feedback ?fb (user_name mgr) None"
    and s': "s' = s\<lparr>feedbacks := save_doc fb_id ?fb (feedbacks s)\<rparr>"
    by (auto simp: update_feedback_def tags_or_empty_def Let_def split: option.splits if_splits)
  have fid: "fb_id fb = fid"
    using assms(1) by (rule get_doc_id)
  have owner: "fc_manager_employee_id upd = fb_manager_employee_id fb"
    using find_one_is_manager_id [OF mgr] own by simp
  have read: "get_doc fb_id fid (feedbacks s') = Some ?fb"
    using get_doc_save_doc [of fb_id ?fb "feedbacks s"] fid by (simp add: s')
  have listed: "?fb \<in> set (feedbacks s')"
    by (simp add: s' save_doc_mem)
  have hist: "history_entry markdown s' ?fb \<in> set (get_feedback_history markdown s' (fb_employee_id fb))"
    using listed by (simp add: get_feedback_history_def find_all_def)
  have len: "length (feedbacks s') = length (feedbacks s)"
    using length_save_doc [of fb_id ?fb "feedbacks s" fb] assms(1) fid by (simp add: s')
  have rest: "users s' = users s \<and> requests s' = requests s \<and> notifications s' = notifications s"
    by (simp add: s')
  have fields: "\<forall>fb'. get_doc fb_id fid (feedbacks s') = Some fb' \<longrightarrow>
        fb_strengths fb' = fc_strengths upd \<and>
        fb_improvement fb' = fc_improvement upd \<and>
        fb_sentiment fb' = fc_sentiment upd \<and>
        fb_tags fb' = (case fc_tags upd of None \<Rightarrow> [] | Some ts \<Rightarrow> ts) \<and>
        (\<forall>ts. fc_tags upd = Some ts \<longrightarrow> fb_tags fb' = ts) \<and>
        (fc_tags upd = None \<longrightarrow> fb_tags fb' = []) \<and>
        fb_anonymous fb' = fc_anonymous upd \<and>
        fb_acknowledged fb' = fb_acknowledged fb \<and>
        fb_comments fb' = fb_comments fb \<and>
        out_feedback out = fb' \<and>
        history_entry markdown s' fb' \<in> set (get_feedback_history markdown s' (fb_employee_id fb))"
    using hist by (simp add: read out from_feedback_def tags_or_empty_def)
  show ?thesis
    using owner read fields rest len by blast
qed

theorem update_feedback_replaces_five_fields_witness:
  "get_doc fb_id 0 (feedbacks demo_db) = Some fb0 \<and>
   fc_tags tagged_fb = Some [''q2'', ''q3''] \<and>
   update_feedback demo_db 0 tagged_fb =
     (Inr (from_feedback (fb0\<lparr>fb_strengths := ''bold'', fb_improvement := ''pace'',
             fb_sentiment := ''negative'', fb_tags := [''q2'', ''q3''],
             fb_anonymous := True\<rparr>) ''Alice'' None),
      demo_db\<lparr>feedbacks := [fb0\<lparr>fb_strengths := ''bold'', fb_improvement := ''pace'',
             fb_sentiment := ''negative'', fb_tags := [''q2'', ''q3''],
             fb_anonymous := True\<rparr>]\<rparr>) \<and>
   get_doc fb_id 0 (feedbacks (demo_db\<lparr>feedbacks := [fb0\<lparr>fb_strengths := ''bold'',
             fb_improvement := ''pace'', fb_sentiment := ''negative'',
             fb_tags := [''q2'', ''q3''], fb_anonymous := True\<rparr>]\<rparr>)) =
     Some (fb0\<lparr>fb_strengths := ''bold'', fb_improvement := ''pace'',
             fb_sentiment := ''negative'', fb_tags := [''q2'', ''q3''],
             fb_anonymous := True\<rparr>) \<and>
   fc_tags new_fb = None \<and>
   update_feedback demo_db 0 new_fb =
     (Inr (from_feedback (fb0\<lparr>fb_strengths := ''calm'', fb_improvement := ''docs'',
             fb_sentiment := ''neutral'', fb_tags := [], fb_anonymous := True\<rparr>) ''Alice'' None),
      demo_db\<lparr>feedbacks := [fb0\<lparr>fb_strengths := ''calm'', fb_improvement := ''docs'',
             fb_sentiment := ''neutral'', fb_tags := [], fb_anonymous := True\<rparr>]\<rparr>) \<and>
   get_doc fb_id 0 (feedbacks (demo_db\<lparr>feedbacks := [fb0\<lparr>fb_strengths := ''calm'',
             fb_improvement := ''docs'', fb_sentiment := ''neutral'', fb_tags := [],
             fb_anonymous := True\<rparr>]\<rparr>)) =
     Some (fb0\<lparr>fb_strengths := ''calm'', fb_improvement := ''docs'',
             fb_sentiment := ''neutral'', fb_tags := [], fb_anonymous := True\<rparr>)"
proof -
  have stored: "get_doc fb_id 0 (feedbacks demo_db) = Some fb0"
    by (simp add: store_defs demo_defs)
  have tags: "fc_tags tagged_fb = Some [''q2'', ''q3'']"
    by (simp add: tagged_fb_def)
  have none: "fc_tags new_fb = None"
    by (simp add: new_fb_def)
  have run: "update_feedback demo_db 0 tagged_fb =
     (Inr (from_feedback (fb0\<lparr>fb_strengths := ''bold'', fb_improvement := ''pace'',
             fb_sentiment := ''negative'', fb_tags := [''q2'', ''q3''],
             fb_anonymous := True\<rparr>) ''Alice'' None),
      demo_db\<lparr>feedbacks := [fb0\<lparr>fb_strengths := ''bold'', fb_improvement := ''pace'',
             fb_sentiment := ''negative'', fb_tags := [''q2'', ''q3''],
             fb_anonymous := True\<rparr>]\<rparr>)"
    by (simp add: update_feedback_def store_defs demo_defs tagged_fb_def)
  have run': "update_feedback demo_db 0 new_fb =
     (Inr (from_feedback (fb0\<lparr>fb_strengths := ''calm'', fb_improvement := ''docs'',
             fb_sentiment := ''neutral'', fb_tags := [], fb_anonymous := True\<rparr>) ''Alice'' None),
      demo_db\<lparr>feedbacks := [fb0\<lparr>fb_strengths := ''calm'', fb_improvement := ''docs'',
             fb_sentiment := ''neutral'', fb_tags := [], fb_anonymous := True\<rparr>]\<rparr>)"
    by (simp add: update_feedback_def store_defs demo_defs)
  have read: "get_doc fb_id 0 (feedbacks (demo_db\<lparr>feedbacks := [fb0\<lparr>fb_strengths := ''bold'',
             fb_improvement := ''pace'', fb_sentiment := ''negative'',
             fb_tags := [''q2'', ''q3''], fb_anonymous := True\<rparr>]\<rparr>)) =
     Some (fb0\<lparr>fb_strengths := fc_strengths tagged_fb,
                 fb_improvement := fc_improvement tagged_fb,
                 fb_sentiment := fc_sentiment tagged_fb,
                 fb_tags := (case fc_tags tagged_fb of None \<Rightarrow> [] | Some ts \<Rightarrow> ts),
                 fb_anonymous := fc_anonymous tagged_fb\<rparr>)"
    by (rule update_feedback_replaces_five_fields [OF stored run, THEN conjunct2, THEN conjunct1])
  have read': "get_doc fb_id 0 (feedbacks (demo_db\<lparr>feedbacks := [fb0\<lparr>fb_strengths := ''calm'',
             fb_improvement := ''docs'', fb_sentiment := ''neutral'', fb_tags := [],
             fb_anonymous := True\<rparr>]\<rparr>)) =
     Some (fb0\<lparr>fb_strengths := fc_strengths new_fb,
                 fb_improvement := fc_improvement new_fb,
                 fb_sentiment := fc_sentiment new_fb,
                 fb_tags := (case fc_tags new_fb of None \<Rightarrow> [] | Some ts \<Rightarrow> ts),
                 fb_anonymous := fc_anonymous new_fb\<rparr>)"
    by (rule update_feedback_replaces_five_fields [OF stored run', THEN conjunct2, THEN conjunct1])
  have a: "get_doc fb_id 0 (feedbacks (demo_db\<lparr>feedbacks := [fb0\<lparr>fb_strengths := ''bold'',
             fb_improvement := ''pace'', fb_sentiment := ''negative'',
             fb_tags := [''q2'', ''q3''], fb_anonymous := True\<rparr>]\<rparr>)) =
     Some (fb0\<lparr>fb_strengths := ''bold'', fb_improvement := ''pace'',
             fb_sentiment := ''negative'', fb_tags := [''q2'', ''q3''],
             fb_anonymous := True\<rparr>)"
    using read by (simp add: tagged_fb_def)
  have b: "get_doc fb_id 0 (feedbacks (demo_db\<lparr>feedbacks := [fb0\<lparr>fb_strengths := ''calm'',
             fb_improvement := ''docs'', fb_sentiment := ''neutral'', fb_tags := [],
             fb_anonymous := True\<rparr>]\<rparr>)) =
     Some (fb0\<lparr>fb_strengths := ''calm'', fb_improvement := ''docs'',
             fb_sentiment := ''neutral'', fb_tags := [], fb_anonymous := True\<rparr>)"
    using read' by (simp add: new_fb_def)
  show ?thesis
    using stored tags none run run' a b by blast
qed

section \<open>acknowledge\<close>

lemma acknowledge_found:
  assumes "get_doc fb_id fid (feedbacks s) = Some fb"
    and "acknowledge s now fid = (r, s')"
  shows "r = Inr ''Feedback acknowledged''"
    and "get_doc fb_id fid (feedbacks s') = Some (fb\<lparr>fb_acknowledged := True\<rparr>)"
    and "users s' = users s"
    and "find_one (has_id (fb_manager_employee_id fb)) (users s) = None \<Longrightarrow>
           notifications s' = notifications s"
    and "find_one (has_id (fb_manager_employee_id fb)) (users s) = Some mgr \<Longrightarrow>
           notifications s' = notifications s @ [last (notifications s')] \<and>
           ntf_employee_id (last (notifications s')) = fb_manager_employee_id fb \<and>
           ntf_message (last (notifications s')) =
             ''Employee '' @ fb_employee_id fb @ '' acknowledged your feedback.''"
proof -
  have fid: "fb_id fb = fid"
    using assms(1) by (rule get_doc_id)
  have read: "get_doc fb_id fid (save_doc fb_id (fb\<lparr>fb_acknowledged := True\<rparr>) (feedbacks s)) =
      Some (fb\<lparr>fb_acknowledged := True\<rparr>)"
    using get_doc_save_doc [of fb_id "fb\<lparr>fb_acknowledged := True\<rparr>" "feedbacks s"] fid by simp
  show "r = Inr ''Feedback acknowledged''"
    using assms by (auto simp: acknowledge_def Let_def split: option.splits)
  show "get_doc fb_id fid (feedbacks s') = Some (fb\<lparr>fb_acknowledged := True\<rparr>)"
    using assms read by (auto simp: acknowledge_def Let_def split: option.splits)
  show "users s' = users s"
    using assms by (auto simp: acknowledge_def Let_def split: option.splits)
  show "find_one (has_id (fb_manager_employee_id fb)) (users s) = None \<Longrightarrow>
           notifications s' = notifications s"
    using assms by (auto simp: acknowledge_def Let_def split: option.splits)
  show "find_one (has_id (fb_manager_employee_id fb)) (users s) = Some mgr \<Longrightarrow>
           notifications s' = notifications s @ [last (notifications s')] \<and>
           ntf_employee_id (last (notifications s')) = fb_manager_employee_id fb \<and>
           ntf_message (last (notifications s')) =
             ''Employee '' @ fb_employee_id fb @ '' acknowledged your feedback.''"
    using assms by (auto simp: acknowledge_def Let_def split: option.splits)
qed

text \<open>
  C3, as the router has it. If the feedback identifier resolves to no feedback,
  \<open>acknowledge\<close> fails with status 404 and changes nothing. If it resolves, the call
  succeeds and the stored feedback is the old one with the acknowledged flag set; a
  second call succeeds as well and leaves the flag set. Each of the two calls appends one
  notification for the stored manager identifier with the message "Employee ...
  acknowledged your feedback." provided that identifier resolves to a user; when it
  resolves to no user, both calls succeed and append nothing.
\<close>

theorem acknowledge_twice:
  assumes "acknowledge s now fid = (r, s')"
    and "acknowledge s' now' fid = (r2, s'')"
  shows
    "(get_doc fb_id fid (feedbacks s) = None \<longrightarrow>
        r = Inl (HTTPException 404 ''Feedback not found'') \<and> s' = s) \<and>
     (get_doc fb_id fid (feedbacks s) = Some fb \<longrightarrow>
        r = Inr ''Feedback acknowledged'' \<and>
        get_doc fb_id fid (feedbacks s') = Some (fb\<lparr>fb_acknowledged := True\<rparr>) \<and>
        r2 = Inr ''Feedback acknowledged'' \<and>
        get_doc fb_id fid (feedbacks s'') = Some (fb\<lparr>fb_acknowledged := True\<rparr>) \<and>
        (find_one (has_id (fb_manager_employee_id fb)) (users s) = Some mgr \<longrightarrow>
           notifications s' = notifications s @ [last (notifications s')] \<and>
           ntf_employee_id (last (notifications s')) = fb_manager_employee_id fb \<and>
           ntf_message (last (notifications s')) =
             ''Employee '' @ fb_employee_id fb @ '' acknowledged your feedback.'' \<and>
           notifications s'' = notifications s' @ [last (notifications s'')] \<and>
           ntf_employee_id (last (notifications s'')) = fb_manager_employee_id fb \<and>
           ntf_message (last (notifications s'')) =
             ''Employee '' @ fb_employee_id fb @ '' acknowledged your feedback.'') \<and>
        (find_one (has_id (fb_manager_employee_id fb)) (users s) = None \<longrightarrow>
           notifications s' = notifications s \<and> notifications s'' = notifications s))"
proof (intro conjI impI)
  assume "get_doc fb_id fid (feedbacks s) = None"
  then show "r = Inl (HTTPException 404 ''Feedback not found'')" and "s' = s"
    using assms(1) by (simp_all add: acknowledge_def)
next
  assume found: "get_doc fb_id fid (feedbacks s) = Some fb"
  let ?fb = "fb\<lparr>fb_acknowledged := True\<rparr>"
  note first = acknowledge_found [OF found assms(1)]
  have found': "get_doc fb_id fid (feedbacks s') = Some ?fb"
    by (rule first(2))
  note second = acknowledge_found [OF found' assms(2)]
  show "r = Inr ''Feedback acknowledged''"
    by (rule first(1))
  show "get_doc fb_id fid (feedbacks s') = Some ?fb"
    by (rule found')
  show "r2 = Inr ''Feedback acknowledged''"
    by (rule second(1))
  show "get_doc fb_id fid (feedbacks s'') = Some ?fb"
    using second(2) by simp
  {
    assume none: "find_one (has_id (fb_manager_employee_id fb)) (users s) = None"
    show "notifications s' = notifications s"
      using first(4) none by simp
    show "notifications s'' = notifications s"
      using first(4) second(4) none first(3) by simp
  }
  {
    assume some: "find_one (has_id (fb_manager_employee_id fb)) (users s) = Some mgr"
    have some': "find_one (has_id (fb_manager_employee_id ?fb)) (users s') = Some mgr"
      using some first(3) by simp
    show "notifications s' = notifications s @ [last (notifications s')]"
      and "ntf_employee_id (last (notifications s')) = fb_manager_employee_id fb"
      and "ntf_message (last (notifications s')) =
             ''Employee '' @ fb_employee_id fb @ '' acknowledged your feedback.''"
      using first(5) [OF some] by simp_all
    show "notifications s'' = notifications s' @ [last (notifications s'')]"
      and "ntf_employee_id (last (notifications s'')) = fb_manager_employee_id fb"
      and "ntf_message (last (notifications s'')) =
             ''Employee '' @ fb_employee_id fb @ '' acknowledged your feedback.''"
      using second(5) [OF some'] by simp_all
  }
qed

theorem acknowledge_twice_witness:
  "get_doc fb_id 0 (feedbacks demo_db) = Some fb0 \<and>
   find_one (has_id (fb_manager_employee_id fb0)) (users demo_db) = Some alice \<and>
   fst (acknowledge (snd (acknowledge demo_db 5 0)) 6 0) = Inr ''Feedback acknowledged'' \<and>
   get_doc fb_id 0 (feedbacks (snd (acknowledge (snd (acknowledge demo_db 5 0)) 6 0))) =
     Some (fb0\<lparr>fb_acknowledged := True\<rparr>) \<and>
   length (notifications (snd (acknowledge (snd (acknowledge demo_db 5 0)) 6 0))) =
     Suc (Suc (length (notifications demo_db))) \<and>
   get_doc fb_id 7 (feedbacks demo_db) = None \<and>
   fst (acknowledge demo_db 5 7) = Inl (HTTPException 404 ''Feedback not found'') \<and>
   snd (acknowledge demo_db 5 7) = demo_db \<and>
   get_doc fb_id 0 (feedbacks orphan_db) = Some fb0 \<and>
   find_one (has_id (fb_manager_employee_id fb0)) (users orphan_db) = None \<and>
   notifications (snd (acknowledge (snd (acknowledge orphan_db 5 0)) 6 0)) =
     notifications orphan_db"
proof -
  have stored: "get_doc fb_id 0 (feedbacks demo_db) = Some fb0"
    by (simp add: store_defs demo_defs)
  have mgr: "find_one (has_id (fb_manager_employee_id fb0)) (users demo_db) = Some alice"
    by (simp add: store_defs demo_defs)
  have first: "acknowledge demo_db 5 0 =
      (fst (acknowledge demo_db 5 0), snd (acknowledge demo_db 5 0))"
    by simp
  have second: "acknowledge (snd (acknowledge demo_db 5 0)) 6 0 =
      (fst (acknowledge (snd (acknowledge demo_db 5 0)) 6 0),
       snd (acknowledge (snd (acknowledge demo_db 5 0)) 6 0))"
    by simp
  note both = acknowledge_twice [OF first second, of fb0 alice]
  have r2: "fst (acknowledge (snd (acknowledge demo_db 5 0)) 6 0) = Inr ''Feedback acknowledged''"
    using both stored by blast
  have flag: "get_doc fb_id 0 (feedbacks (snd (acknowledge (snd (acknowledge demo_db 5 0)) 6 0))) =
      Some (fb0\<lparr>fb_acknowledged := True\<rparr>)"
    using both stored by blast
  have n1: "notifications (snd (acknowledge demo_db 5 0)) =
      notifications demo_db @ [last (notifications (snd (acknowledge demo_db 5 0)))]"
    using both stored mgr by blast
  have n2: "notifications (snd (acknowledge (snd (acknowledge demo_db 5 0)) 6 0)) =
      notifications (snd (acknowledge demo_db 5 0)) @
        [last (notifications (snd (acknowledge (snd (acknowledge demo_db 5 0)) 6 0)))]"
    using both stored mgr by blast
  have len: "length (notifications (snd (acknowledge (snd (acknowledge demo_db 5 0)) 6 0))) =
      Suc (Suc (length (notifications demo_db)))"
    using arg_cong [OF n1, of length] arg_cong [OF n2, of length] by simp
  have absent: "get_doc fb_id 7 (feedbacks demo_db) = None"
    by (simp add: store_defs demo_defs)
  have third: "acknowledge demo_db 5 7 =
      (fst (acknowledge demo_db 5 7), snd (acknowledge demo_db 5 7))"
    by simp
  have fourth: "acknowledge (snd (acknowledge demo_db 5 7)) 6 7 =
      (fst (acknowledge (snd (acknowledge demo_db 5 7)) 6 7),
       snd (acknowledge (snd (acknowledge demo_db 5 7)) 6 7))"
    by simp
  have missing: "fst (acknowledge demo_db 5 7) = Inl (HTTPException 404 ''Feedback not found'') \<and>
      snd (acknowledge demo_db 5 7) = demo_db"
    using acknowledge_twice [OF third fourth, of fb0 alice] absent by blast
  have stored': "get_doc fb_id 0 (feedbacks orphan_db) = Some fb0"
    by (simp add: store_defs demo_defs)
  have gone: "find_one (has_id (fb_manager_employee_id fb0)) (users orphan_db) = None"
    by (simp add: store_defs demo_defs)
  have fifth: "acknowledge orphan_db 5 0 =
      (fst (acknowledge orphan_db 5 0), snd (acknowledge orphan_db 5 0))"
    by simp
  have sixth: "acknowledge (snd (acknowledge orphan_db 5 0)) 6 0 =
      (fst (acknowledge (snd (acknowledge orphan_db 5 0)) 6 0),
       snd (acknowledge (snd (acknowledge orphan_db 5 0)) 6 0))"
    by simp
  have silent: "notifications (snd (acknowledge (snd (acknowledge orphan_db 5 0)) 6 0)) =
      notifications orphan_db"
    using acknowledge_twice [OF fifth sixth, of fb0 alice] stored' gone by blast
  show ?thesis
    using stored mgr r2 flag len absent missing stored' gone silent by blast
qed

text \<open>
  The claim as the specification words it promises a notification on each call for every
  stored feedback. In \<open>orphan_db\<close> the feedback with identifier 0 is stored, its manager
  identifier M1 resolves to no user, and the call succeeds without a notification.
\<close>

theorem acknowledge_notification_counterexample:
  "get_doc fb_id 0 (feedbacks orphan_db) = Some fb0 \<and>
   fst (acknowledge orphan_db 5 0) = Inr ''Feedback acknowledged'' \<and>
   fb_acknowledged (the (get_doc fb_id 0 (feedbacks (snd (acknowledge orphan_db 5 0))))) \<and>
   notifications orphan_db = [] \<and>
   notifications (snd (acknowledge orphan_db 5 0)) = []"
  by (simp add: acknowledge_def store_defs demo_defs)

section \<open>request feedback\<close>

lemma create_feedback_fails_iff:
  "isl (fst (create_feedback s now p)) \<longleftrightarrow>
     find_one (is_manager (fc_manager_employee_id p)) (users s) = None \<or>
     find_one (is_employee (fc_employee_id p)) (users s) = None"
  by (simp add: create_feedback_def Let_def split: option.splits)

lemma create_feedback_error:
  "isl (fst (create_feedback s now p)) \<Longrightarrow>
     fst (create_feedback s now p) =
       Inl (HTTPException 404
         (if find_one (is_manager (fc_manager_employee_id p)) (users s) = None
          then ''Manager not found'' else ''Employee not found''))"
  by (simp add: create_feedback_def Let_def split: option.splits)

lemma request_feedback_no_employee:
  "find_one (is_employee (fri_employee_id q)) (users s) = None \<Longrightarrow>
     request_feedback s now q = (Inl (HTTPException 404 ''Employee not found''), s)"
  by (simp add: request_feedback_def)

lemma request_feedback_no_manager:
  "find_one (is_employee (fri_employee_id q)) (users s) = Some emp \<Longrightarrow>
   find_one (is_manager (fri_manager_employee_id q)) (users s) = None \<Longrightarrow>
     request_feedback s now q = (Inl (HTTPException 404 ''Manager not found''), s)"
  by (simp add: request_feedback_def)

lemma request_feedback_ok:
  assumes "find_one (is_employee (fri_employee_id q)) (users s) = Some emp"
    and "find_one (is_manager (fri_manager_employee_id q)) (users s) = Some mgr"
  shows "request_feedback s now q =
     (Inr ''Feedback request submitted successfully'',
      s\<lparr>requests := requests s @
           [\<lparr>fr_id = next_id s, fr_employee_id = fri_employee_id q,
             fr_manager_employee_id = fri_manager_employee_id q,
             fr_message = fri_message q, fr_seen = False, fr_created_at = now\<rparr>],
        notifications := notifications s @
           [\<lparr>ntf_id = Suc (next_id s), ntf_employee_id = fri_manager_employee_id q,
             ntf_manager_employee_id = fri_manager_employee_id q,
             ntf_manager_name = user_name mgr,
             ntf_message = ''Feedback request from employee '' @ fri_employee_id q,
             ntf_seen = False, ntf_created_at = now\<rparr>],
        next_id := Suc (Suc (next_id s))\<rparr>)"
  using assms by (simp add: request_feedback_def Let_def)

text \<open>
  C4, as the router has it. For the same pair of identifiers \<open>request_feedback\<close> fails
  exactly when \<open>create_feedback\<close> fails, namely when the employee lookup or the manager
  lookup (each filtered by role) finds nothing; it fails with status 404 and leaves the
  store unchanged. It looks the employee up first: the detail is "Employee not found"
  when the employee lookup fails and "Manager not found" otherwise, which is the error
  of \<open>create_feedback\<close> unless both lookups fail. On success it appends one request with
  \<open>seen = False\<close> and one notification whose employee identifier and manager
  identifier are both the manager identifier of the payload.
\<close>

theorem request_feedback_validates_like_create:
  assumes "request_feedback s now q = (r, s')"
    and "fri_employee_id q = fc_employee_id p"
    and "fri_manager_employee_id q = fc_manager_employee_id p"
  shows
    "(isl r \<longleftrightarrow> isl (fst (create_feedback s now' p))) \<and>
     (isl r \<longleftrightarrow>
        find_one (is_employee (fri_employee_id q)) (users s) = None \<or>
        find_one (is_manager (fri_manager_employee_id q)) (users s) = None) \<and>
     (isl r \<longrightarrow>
        s' = s \<and>
        r = Inl (HTTPException 404
              (if find_one (is_employee (fri_employee_id q)) (users s) = None
               then ''Employee not found'' else ''Manager not found''))) \<and>
     (isl r \<and>
      \<not> (find_one (is_employee (fri_employee_id q)) (users s) = None \<and>
         find_one (is_manager (fri_manager_employee_id q)) (users s) = None) \<longrightarrow>
        projl r = projl (fst (create_feedback s now' p))) \<and>
     (\<not> isl r \<longrightarrow>
        r = Inr ''Feedback request submitted successfully'' \<and>
        requests s' = requests s @ [last (requests s')] \<and>
        fr_employee_id (last (requests s')) = fri_employee_id q \<and>
        fr_manager_employee_id (last (requests s')) = fri_manager_employee_id q \<and>
        fr_message (last (requests s')) = fri_message q \<and>
        \<not> fr_seen (last (requests s')) \<and>
        notifications s' = notifications s @ [last (notifications s')] \<and>
        ntf_employee_id (last (notifications s')) = fri_manager_employee_id q \<and>
        ntf_manager_employee_id (last (notifications s')) = fri_manager_employee_id q \<and>
        users s' = users s \<and> feedbacks s' = feedbacks s)"
proof (cases "find_one (is_employee (fri_employee_id q)) (users s)")
  case None
  have run: "r = Inl (HTTPException 404 ''Employee not found'')" "s' = s"
    using request_feedback_no_employee [OF None, of now] assms(1) by simp_all
  have c: "isl (fst (create_feedback s now' p))"
    using None assms(2) by (simp add: create_feedback_fails_iff)
  show ?thesis
    using run c None create_feedback_error [OF c] assms(2,3) by auto
next
  case (Some emp)
  note emp = Some
  show ?thesis
  proof (cases "find_one (is_manager (fri_manager_employee_id q)) (users s)")
    case None
    have run: "r = Inl (HTTPException 404 ''Manager not found'')" "s' = s"
      using request_feedback_no_manager [OF emp None, of now] assms(1) by simp_all
    have c: "isl (fst (create_feedback s now' p))"
      using None assms(3) by (simp add: create_feedback_fails_iff)
    show ?thesis
      using run c emp None create_feedback_error [OF c] assms(2,3) by auto
  next
    case (Some mgr)
    have c: "\<not> isl (fst (create_feedback s now' p))"
      using emp Some assms(2,3) by (simp add: create_feedback_fails_iff)
    show ?thesis
      using request_feedback_ok [OF emp Some, of now] assms(1) c emp Some by auto
  qed
qed

theorem request_feedback_validates_like_create_witness:
  "fri_employee_id new_req = fc_employee_id new_fb \<and>
   fri_manager_employee_id new_req = fc_manager_employee_id new_fb \<and>
   \<not> isl (fst (request_feedback demo_db 9 new_req)) \<and>
   \<not> isl (fst (create_feedback demo_db 8 new_fb)) \<and>
   \<not> fr_seen (last (requests (snd (request_feedback demo_db 9 new_req)))) \<and>
   ntf_employee_id (last (notifications (snd (request_feedback demo_db 9 new_req)))) = ''M1'' \<and>
   ntf_manager_employee_id (last (notifications (snd (request_feedback demo_db 9 new_req)))) = ''M1'' \<and>
   isl (fst (request_feedback orphan_db 9 new_req)) \<and>
   fst (request_feedback orphan_db 9 new_req) = Inl (HTTPException 404 ''Manager not found'') \<and>
   projl (fst (request_feedback orphan_db 9 new_req)) =
     projl (fst (create_feedback orphan_db 8 new_fb)) \<and>
   snd (request_feedback orphan_db 9 new_req) = orphan_db"
proof -
  have ids: "fri_employee_id new_req = fc_employee_id new_fb"
    "fri_manager_employee_id new_req = fc_manager_employee_id new_fb"
    by (simp_all add: demo_defs)
  have mid: "fri_manager_employee_id new_req = ''M1''"
    by (simp add: demo_defs)
  have emp: "find_one (is_employee (fri_employee_id new_req)) (users demo_db) = Some bob"
    and mgr: "find_one (is_manager (fri_manager_employee_id new_req)) (users demo_db) = Some alice"
    by (simp_all add: store_defs demo_defs)
  have emp': "find_one (is_employee (fri_employee_id new_req)) (users orphan_db) = Some bob"
    and mgr': "find_one (is_manager (fri_manager_employee_id new_req)) (users orphan_db) = None"
    by (simp_all add: store_defs demo_defs)
  have run: "request_feedback demo_db 9 new_req =
      (fst (request_feedback demo_db 9 new_req), snd (request_feedback demo_db 9 new_req))"
    by simp
  have run': "request_feedback orphan_db 9 new_req =
      (fst (request_feedback orphan_db 9 new_req), snd (request_feedback orphan_db 9 new_req))"
    by simp
  note ok = request_feedback_validates_like_create [OF run ids, of 8]
  note ko = request_feedback_validates_like_create [OF run' ids, of 8]
  have a: "\<not> isl (fst (request_feedback demo_db 9 new_req))"
    using ok [THEN conjunct2, THEN conjunct1] emp mgr by simp
  have b: "\<not> isl (fst (create_feedback demo_db 8 new_fb))"
    using ok [THEN conjunct1] a by simp
  have c: "\<not> fr_seen (last (requests (snd (request_feedback demo_db 9 new_req))))"
    "ntf_employee_id (last (notifications (snd (request_feedback demo_db 9 new_req)))) = ''M1''"
    "ntf_manager_employee_id (last (notifications (snd (request_feedback demo_db 9 new_req)))) = ''M1''"
    using ok [THEN conjunct2, THEN conjunct2, THEN conjunct2, THEN conjunct2] a mid
    by simp_all
  have d: "isl (fst (request_feedback orphan_db 9 new_req))"
    using ko [THEN conjunct2, THEN conjunct1] mgr' by simp
  have e: "fst (request_feedback orphan_db 9 new_req) = Inl (HTTPException 404 ''Manager not found'')"
    "snd (request_feedback orphan_db 9 new_req) = orphan_db"
    using ko [THEN conjunct2, THEN conjunct2, THEN conjunct1] d emp' by simp_all
  have f: "projl (fst (request_feedback orphan_db 9 new_req)) =
      projl (fst (create_feedback orphan_db 8 new_fb))"
    using ko [THEN conjunct2, THEN conjunct2, THEN conjunct2, THEN conjunct1] d emp' by simp
  show ?thesis
    using ids a b c d e f by blast
qed

text \<open>
  The claim as the specification words it has the two endpoints report the same entity
  on every input. With no user in the directory \<open>create_feedback\<close> reports the manager
  and \<open>request_feedback\<close>, for the same two identifiers, the employee.
\<close>

theorem request_feedback_entity_counterexample:
  "fri_employee_id new_req = fc_employee_id new_fb \<and>
   fri_manager_employee_id new_req = fc_manager_employee_id new_fb \<and>
   create_feedback empty_db 9 new_fb = (Inl (HTTPException 404 ''Manager not found''), empty_db) \<and>
   request_feedback empty_db 9 new_req = (Inl (HTTPException 404 ''Employee not found''), empty_db)"
  by (simp add: create_feedback_def request_feedback_def store_defs demo_defs)

section \<open>delete feedback\<close>

lemma length_delete_doc:
  "get_doc idf i xs = Some d \<Longrightarrow> Suc (length (delete_doc idf i xs)) = length xs"
  by (induction xs) (auto simp: get_doc_def split: if_splits)

lemma get_doc_delete_doc:
  "distinct (map idf xs) \<Longrightarrow> get_doc idf i (delete_doc idf i xs) = None"
proof (induction xs)
  case Nil
  show ?case by (simp add: get_doc_def)
next
  case (Cons x xs)
  show ?case
  proof (cases "idf x = i")
    case True
    have "i \<notin> idf ` set xs"
      using Cons.prems True by simp
    then have "\<forall>y\<in>set xs. idf y \<noteq> i"
      by (metis imageI)
    then show ?thesis
      using True by (simp add: get_doc_def find_None_iff)
  next
    case False
    then show ?thesis
      using Cons by (simp add: get_doc_def)
  qed
qed

lemma get_doc_delete_doc_other:
  "j \<noteq> i \<Longrightarrow> get_doc idf j (delete_doc idf i xs) = get_doc idf j xs"
  by (induction xs) (auto simp: get_doc_def)

text \<open>
  C6. \<open>delete_feedback\<close> takes the store and a feedback identifier and nothing that
  names a caller. It fails with status 404, changing nothing, exactly when the identifier
  resolves to no feedback. When it resolves, the call fails with status 403, changing
  nothing, exactly when the manager identifier stored in the feedback resolves to no
  user with role manager; when such a user exists the call succeeds and the feedback is
  removed from the store.
\<close>

theorem delete_feedback_checks_stored_manager_only:
  assumes "delete_feedback s fid = (r, s')"
  shows
    "(r = Inl (HTTPException 404 ''Feedback not found'') \<longleftrightarrow>
        get_doc fb_id fid (feedbacks s) = None) \<and>
     (get_doc fb_id fid (feedbacks s) = None \<longrightarrow> s' = s) \<and>
     (get_doc fb_id fid (feedbacks s) = Some fb \<longrightarrow>
        (r = Inl (HTTPException 403 ''Not authorized'') \<longleftrightarrow>
           find_one (is_manager (fb_manager_employee_id fb)) (users s) = None) \<and>
        (find_one (is_manager (fb_manager_employee_id fb)) (users s) = None \<longrightarrow> s' = s) \<and>
        (find_one (is_manager (fb_manager_employee_id fb)) (users s) = Some mgr \<longrightarrow>
           r = Inr ''Deleted'' \<and>
           s' = s\<lparr>feedbacks := delete_doc fb_id fid (feedbacks s)\<rparr> \<and>
           Suc (length (feedbacks s')) = length (feedbacks s) \<and>
           (distinct (map fb_id (feedbacks s)) \<longrightarrow> get_doc fb_id fid (feedbacks s') = None)))"
proof (cases "get_doc fb_id fid (feedbacks s)")
  case None
  then show ?thesis
    using assms by (simp add: delete_feedback_def)
next
  case (Some fb1)
  have fid: "fb_id fb1 = fid"
    using Some by (rule get_doc_id)
  show ?thesis
  proof (cases "find_one (is_manager (fb_manager_employee_id fb1)) (users s)")
    case None
    then show ?thesis
      using assms Some by (auto simp: delete_feedback_def)
  next
    case (Some mgr1)
    have run: "r = Inr ''Deleted''" "s' = s\<lparr>feedbacks := delete_doc fb_id fid (feedbacks s)\<rparr>"
      using assms \<open>get_doc fb_id fid (feedbacks s) = Some fb1\<close> Some fid
      by (auto simp: delete_feedback_def)
    show ?thesis
      using run Some \<open>get_doc fb_id fid (feedbacks s) = Some fb1\<close>
        length_delete_doc [OF \<open>get_doc fb_id fid (feedbacks s) = Some fb1\<close>]
        get_doc_delete_doc [of fb_id "feedbacks s" fid]
      by auto
  qed
qed

theorem delete_feedback_checks_stored_manager_only_witness:
  "get_doc fb_id 0 (feedbacks demo_db) = Some fb0 \<and>
   find_one (is_manager (fb_manager_employee_id fb0)) (users demo_db) = Some alice \<and>
   distinct (map fb_id (feedbacks demo_db)) \<and>
   fst (delete_feedback demo_db 0) = Inr ''Deleted'' \<and>
   get_doc fb_id 0 (feedbacks (snd (delete_feedback demo_db 0))) = None \<and>
   get_doc fb_id 7 (feedbacks demo_db) = None \<and>
   fst (delete_feedback demo_db 7) = Inl (HTTPException 404 ''Feedback not found'') \<and>
   snd (delete_feedback demo_db 7) = demo_db \<and>
   get_doc fb_id 0 (feedbacks orphan_db) = Some fb0 \<and>
   find_one (is_manager (fb_manager_employee_id fb0)) (users orphan_db) = None \<and>
   fst (delete_feedback orphan_db 0) = Inl (HTTPException 403 ''Not authorized'') \<and>
   snd (delete_feedback orphan_db 0) = orphan_db"
proof -
  have stored: "get_doc fb_id 0 (feedbacks demo_db) = Some fb0"
    and mgr: "find_one (is_manager (fb_manager_employee_id fb0)) (users demo_db) = Some alice"
    and ids: "distinct (map fb_id (feedbacks demo_db))"
    and absent: "get_doc fb_id 7 (feedbacks demo_db) = None"
    and stored': "get_doc fb_id 0 (feedbacks orphan_db) = Some fb0"
    and gone: "find_one (is_manager (fb_manager_employee_id fb0)) (users orphan_db) = None"
    by (simp_all add: store_defs demo_defs)
  have run1: "delete_feedback demo_db 0 = (fst (delete_feedback demo_db 0), snd (delete_feedback demo_db 0))"
    and run2: "delete_feedback demo_db 7 = (fst (delete_feedback demo_db 7), snd (delete_feedback demo_db 7))"
    and run3: "delete_feedback orphan_db 0 = (fst (delete_feedback orphan_db 0), snd (delete_feedback orphan_db 0))"
    by simp_all
  note t1 = delete_feedback_checks_stored_manager_only [OF run1, of fb0 alice]
  note t2 = delete_feedback_checks_stored_manager_only [OF run2, of fb0 alice]
  note t3 = delete_feedback_checks_stored_manager_only [OF run3, of fb0 alice]
  have a: "fst (delete_feedback demo_db 0) = Inr ''Deleted''"
    "get_doc fb_id 0 (feedbacks (snd (delete_feedback demo_db 0))) = None"
    using t1 [THEN conjunct2, THEN conjunct2] stored mgr ids by blast+
  have b: "fst (delete_feedback demo_db 7) = Inl (HTTPException 404 ''Feedback not found'')"
    using t2 [THEN conjunct1] absent by simp
  have b': "snd (delete_feedback demo_db 7) = demo_db"
    using t2 [THEN conjunct2, THEN conjunct1] absent by simp
  have c: "fst (delete_feedback orphan_db 0) = Inl (HTTPException 403 ''Not authorized'')"
    "snd (delete_feedback orphan_db 0) = orphan_db"
    using t3 [THEN conjunct2, THEN conjunct2] stored' gone by simp_all
  show ?thesis
    using stored mgr ids a absent b b' stored' gone c by blast
qed

section \<open>delete all feedback of a manager\<close>

text \<open>
  What \<open>delete_all\<close> does to the store. If the manager identifier resolves to no user
  with role manager, the call fails with status 403 and the store is unchanged. Otherwise
  it keeps exactly the feedbacks whose stored manager identifier is another one, in their
  order; when no feedback carries the identifier, the store is unchanged. The message of
  the answer holds the printed result object of the driver.
\<close>

lemma delete_all_store:
  assumes "delete_all repr_raw s m = (r, s')"
  shows
    "(find_one (is_manager m) (users s) = None \<longrightarrow>
        r = Inl (HTTPException 403 ''Not authorized'') \<and> s' = s) \<and>
     (find_one (is_manager m) (users s) = Some mgr \<longrightarrow>
        r = Inr (''Deleted DeleteResult('' @
              repr_raw (length (filter (\<lambda>fb. fb_manager_employee_id fb = m) (feedbacks s))) @
              '', acknowledged=True) items'') \<and>
        feedbacks s' = filter (\<lambda>fb. fb_manager_employee_id fb \<noteq> m) (feedbacks s) \<and>
        (\<forall>fb\<in>set (feedbacks s'). fb_manager_employee_id fb \<noteq> m) \<and>
        length (feedbacks s') +
          length (filter (\<lambda>fb. fb_manager_employee_id fb = m) (feedbacks s)) =
          length (feedbacks s) \<and>
        users s' = users s \<and> requests s' = requests s \<and> notifications s' = notifications s \<and>
        ((\<forall>fb\<in>set (feedbacks s). fb_manager_employee_id fb \<noteq> m) \<longrightarrow> s' = s))"
proof (cases "find_one (is_manager m) (users s)")
  case None
  then show ?thesis
    using assms by (simp add: delete_all_def)
next
  case (Some mgr1)
  let ?mine = "\<lambda>fb. fb_manager_employee_id fb = m"
  have r: "r = Inr (''Deleted DeleteResult('' @ repr_raw (length (filter ?mine (feedbacks s))) @
      '', acknowledged=True) items'')"
    and s': "s' = s\<lparr>feedbacks := filter (\<lambda>fb. fb_manager_employee_id fb \<noteq> m) (feedbacks s)\<rparr>"
    using assms Some by (simp_all add: delete_all_def delete_many_def repr_delete_result_def)
  have count: "length (filter (\<lambda>fb. fb_manager_employee_id fb \<noteq> m) (feedbacks s)) +
      length (filter ?mine (feedbacks s)) = length (feedbacks s)"
    using sum_length_filter_compl [of ?mine "feedbacks s"] by simp
  have none: "(\<forall>fb\<in>set (feedbacks s). fb_manager_employee_id fb \<noteq> m) \<longrightarrow> s' = s"
  proof
    assume all: "\<forall>fb\<in>set (feedbacks s). fb_manager_employee_id fb \<noteq> m"
    then have keep: "filter (\<lambda>fb. fb_manager_employee_id fb \<noteq> m) (feedbacks s) = feedbacks s"
      by (simp add: filter_id_conv)
    show "s' = s"
      by (simp add: s' keep)
  qed
  show ?thesis
    using r s' count none Some by simp
qed

text \<open>
  C7. In \<open>demo_db\<close> the identifier M1 resolves to a manager who wrote the one stored
  feedback. \<open>delete_all\<close> removes that feedback, but its answer is not "Deleted 1
  items": between "Deleted" and "items" stands the printed result object,
  \<^verbatim>\<open>DeleteResult(<reply>, acknowledged=True)\<close>, however the reply of the server
  prints. For M2, a manager without feedback, the store is unchanged and the answer is
  not "Deleted 0 items" either.
\<close>

theorem delete_all_message_is_result_object:
  "delete_all repr_raw demo_db ''M1'' =
     (Inr (''Deleted DeleteResult('' @ repr_raw 1 @ '', acknowledged=True) items''),
      demo_db\<lparr>feedbacks := []\<rparr>) \<and>
   fst (delete_all repr_raw demo_db ''M1'') \<noteq> Inr ''Deleted 1 items'' \<and>
   delete_all repr_raw demo_db ''M2'' =
     (Inr (''Deleted DeleteResult('' @ repr_raw 0 @ '', acknowledged=True) items''), demo_db) \<and>
   fst (delete_all repr_raw demo_db ''M2'') \<noteq> Inr ''Deleted 0 items''"
  by (simp add: delete_all_def repr_delete_result_def store_defs demo_defs)

section \<open>comments\<close>






section \<open>seen flags\<close>

text \<open>
  C9. \<open>update_notification_seen\<close> fails with status 404, changing nothing, when the
  notification identifier resolves to no notification. Otherwise it succeeds and the
  stored notification is the old one with \<open>seen\<close> equal to the supplied boolean,
  whatever the flag was; a following call with the opposite boolean sets the opposite
  value, so a notification marked seen can be marked unseen again. By contrast
  \<open>mark_feedback_request_seen\<close> takes no boolean: on a stored request it succeeds and
  the stored request has \<open>seen = True\<close>, whatever the flag was.
\<close>

theorem update_notification_seen_sets_given_value:
  assumes "update_notification_seen s nid b = (r, s')"
  shows
    "(get_doc ntf_id nid (notifications s) = None \<longrightarrow>
        r = Inl (HTTPException 404 ''Notification not found'') \<and> s' = s) \<and>
     (get_doc ntf_id nid (notifications s) = Some n \<longrightarrow>
        r = Inr ''Notification updated'' \<and>
        get_doc ntf_id nid (notifications s') = Some (n\<lparr>ntf_seen := b\<rparr>) \<and>
        fst (update_notification_seen s' nid (\<not> b)) = Inr ''Notification updated'' \<and>
        get_doc ntf_id nid (notifications (snd (update_notification_seen s' nid (\<not> b)))) =
          Some (n\<lparr>ntf_seen := \<not> b\<rparr>)) \<and>
     (get_doc fr_id rid (requests s) = Some req \<longrightarrow>
        fst (mark_feedback_request_seen s rid) = Inr ''Feedback request marked as seen'' \<and>
        get_doc fr_id rid (requests (snd (mark_feedback_request_seen s rid))) =
          Some (req\<lparr>fr_seen := True\<rparr>))"
proof (intro conjI impI)
  assume "get_doc ntf_id nid (notifications s) = None"
  then show "r = Inl (HTTPException 404 ''Notification not found'')" and "s' = s"
    using assms by (simp_all add: update_notification_seen_def)
next
  assume found: "get_doc ntf_id nid (notifications s) = Some n"
  have nid: "ntf_id n = nid"
    using found by (rule get_doc_id)
  have s': "s' = s\<lparr>notifications := save_doc ntf_id (n\<lparr>ntf_seen := b\<rparr>) (notifications s)\<rparr>"
    and r: "r = Inr ''Notification updated''"
    using assms found by (simp_all add: update_notification_seen_def)
  show "r = Inr ''Notification updated''"
    by (rule r)
  show read: "get_doc ntf_id nid (notifications s') = Some (n\<lparr>ntf_seen := b\<rparr>)"
    using get_doc_save_doc [of ntf_id "n\<lparr>ntf_seen := b\<rparr>" "notifications s"] nid
    by (simp add: s')
  show "fst (update_notification_seen s' nid (\<not> b)) = Inr ''Notification updated''"
    using read by (simp add: update_notification_seen_def)
  show "get_doc ntf_id nid (notifications (snd (update_notification_seen s' nid (\<not> b)))) =
      Some (n\<lparr>ntf_seen := \<not> b\<rparr>)"
    using read nid
      get_doc_save_doc [of ntf_id "n\<lparr>ntf_seen := \<not> b\<rparr>" "notifications s'"]
    by (simp add: update_notification_seen_def)
next
  assume found: "get_doc fr_id rid (requests s) = Some req"
  have rid: "fr_id req = rid"
    using found by (rule get_doc_id)
  show "fst (mark_feedback_request_seen s rid) = Inr ''Feedback request marked as seen''"
    using found by (simp add: mark_feedback_request_seen_def)
  show "get_doc fr_id rid (requests (snd (mark_feedback_request_seen s rid))) =
      Some (req\<lparr>fr_seen := True\<rparr>)"
    using found rid get_doc_save_doc [of fr_id "req\<lparr>fr_seen := True\<rparr>" "requests s"]
    by (simp add: mark_feedback_request_seen_def)
qed

theorem update_notification_seen_sets_given_value_witness:
  "get_doc ntf_id 1 (notifications demo_db) = Some ntf1 \<and>
   fst (update_notification_seen demo_db 1 True) = Inr ''Notification updated'' \<and>
   get_doc ntf_id 1 (notifications (snd (update_notification_seen demo_db 1 True))) =
     Some (ntf1\<lparr>ntf_seen := True\<rparr>) \<and>
   get_doc ntf_id 1 (notifications
       (snd (update_notification_seen (snd (update_notification_seen demo_db 1 True)) 1 False))) =
     Some (ntf1\<lparr>ntf_seen := False\<rparr>) \<and>
   get_doc ntf_id 8 (notifications demo_db) = None \<and>
   fst (update_notification_seen demo_db 8 True) =
     Inl (HTTPException 404 ''Notification not found'') \<and>
   snd (update_notification_seen demo_db 8 True) = demo_db \<and>
   get_doc fr_id 2 (requests demo_db) = Some fr2 \<and>
   get_doc fr_id 2 (requests (snd (mark_feedback_request_seen demo_db 2))) =
     Some (fr2\<lparr>fr_seen := True\<rparr>)"
proof -
  have stored: "get_doc ntf_id 1 (notifications demo_db) = Some ntf1"
    and absent: "get_doc ntf_id 8 (notifications demo_db) = None"
    and req: "get_doc fr_id 2 (requests demo_db) = Some fr2"
    by (simp_all add: store_defs demo_defs)
  have run1: "update_notification_seen demo_db 1 True =
      (fst (update_notification_seen demo_db 1 True), snd (update_notification_seen demo_db 1 True))"
    and run2: "update_notification_seen demo_db 8 True =
      (fst (update_notification_seen demo_db 8 True), snd (update_notification_seen demo_db 8 True))"
    by simp_all
  note t1 = update_notification_seen_sets_given_value [OF run1, of ntf1 2 fr2]
  note t2 = update_notification_seen_sets_given_value [OF run2, of ntf1 2 fr2]
  have a: "fst (update_notification_seen demo_db 1 True) = Inr ''Notification updated''"
    "get_doc ntf_id 1 (notifications (snd (update_notification_seen demo_db 1 True))) =
       Some (ntf1\<lparr>ntf_seen := True\<rparr>)"
    "get_doc ntf_id 1 (notifications
       (snd (update_notification_seen (snd (update_notification_seen demo_db 1 True)) 1 False))) =
     Some (ntf1\<lparr>ntf_seen := False\<rparr>)"
    using t1 [THEN conjunct2, THEN conjunct1] stored by simp_all
  have b: "fst (update_notification_seen demo_db 8 True) =
      Inl (HTTPException 404 ''Notification not found'')"
    "snd (update_notification_seen demo_db 8 True) = demo_db"
    using t2 [THEN conjunct1] absent by simp_all
  have c: "get_doc fr_id 2 (requests (snd (mark_feedback_request_seen demo_db 2))) =
      Some (fr2\<lparr>fr_seen := True\<rparr>)"
    using t1 [THEN conjunct2, THEN conjunct2] req by simp
  show ?thesis
    using stored absent req a b c by blast
qed

section \<open>feedback history of an employee\<close>

text \<open>
  C10. \<open>get_feedback_history\<close> has no failing branch: for every store and every
  employee identifier it returns one entry for each stored feedback of that employee, in
  the order of the store. A feedback of the employee whose stored manager identifier is
  the identifier of no user is returned as well, and the manager name of its entry is
  the string "Unknown".
\<close>

theorem get_feedback_history_unknown_manager:
  "map out_feedback (get_feedback_history markdown s eid) =
     filter (\<lambda>fb. fb_employee_id fb = eid) (feedbacks s) \<and>
   (\<forall>fb\<in>set (feedbacks s).
      fb_employee_id fb = eid \<and>
      (\<forall>u\<in>set (users s). user_employee_id u \<noteq> fb_manager_employee_id fb) \<longrightarrow>
        from_feedback fb ''Unknown'' (Some (comments_html markdown fb))
          \<in> set (get_feedback_history markdown s eid)) \<and>
   (\<forall>out\<in>set (get_feedback_history markdown s eid).
      (\<forall>u\<in>set (users s). user_employee_id u \<noteq> fb_manager_employee_id (out_feedback out)) \<longrightarrow>
        out_manager_name out = ''Unknown'')"
proof (intro conjI ballI impI)
  show "map out_feedback (get_feedback_history markdown s eid) =
     filter (\<lambda>fb. fb_employee_id fb = eid) (feedbacks s)"
    by (simp add: get_feedback_history_def find_all_def history_entry_def from_feedback_def
        comp_def)
next
  fix fb
  assume mem: "fb \<in> set (feedbacks s)"
    and own: "fb_employee_id fb = eid \<and>
      (\<forall>u\<in>set (users s). user_employee_id u \<noteq> fb_manager_employee_id fb)"
  have gone: "find_one (has_id (fb_manager_employee_id fb)) (users s) = None"
    using own by (simp add: find_one_def has_id_def find_None_iff)
  have entry: "history_entry markdown s fb =
      from_feedback fb ''Unknown'' (Some (comments_html markdown fb))"
    by (simp add: history_entry_def gone)
  have "history_entry markdown s fb \<in> set (get_feedback_history markdown s eid)"
    using mem own by (simp add: get_feedback_history_def find_all_def)
  then show "from_feedback fb ''Unknown'' (Some (comments_html markdown fb))
      \<in> set (get_feedback_history markdown s eid)"
    by (simp only: entry)
next
  fix out
  assume mem: "out \<in> set (get_feedback_history markdown s eid)"
    and dangling: "\<forall>u\<in>set (users s). user_employee_id u \<noteq> fb_manager_employee_id (out_feedback out)"
  from mem obtain fb where out: "out = history_entry markdown s fb"
    by (auto simp: get_feedback_history_def)
  have fb: "out_feedback out = fb"
    by (simp add: out history_entry_def from_feedback_def)
  have gone: "find_one (has_id (fb_manager_employee_id fb)) (users s) = None"
    using dangling fb by (simp add: find_one_def has_id_def find_None_iff)
  show "out_manager_name out = ''Unknown''"
    by (simp add: out history_entry_def from_feedback_def gone)
qed

theorem get_feedback_history_unknown_manager_witness:
  "fb0 \<in> set (feedbacks orphan_db) \<and> fb_employee_id fb0 = ''E1'' \<and>
   list_all (\<lambda>u. user_employee_id u \<noteq> fb_manager_employee_id fb0) (users orphan_db) \<and>
   map out_feedback (get_feedback_history id orphan_db ''E1'') = [fb0] \<and>
   from_feedback fb0 ''Unknown'' (Some (comments_html id fb0))
     \<in> set (get_feedback_history id orphan_db ''E1'') \<and>
   map out_manager_name (get_feedback_history id orphan_db ''E1'') = [''Unknown'']"
proof -
  have mem: "fb0 \<in> set (feedbacks orphan_db)"
    and own: "fb_employee_id fb0 = ''E1''"
    and gone: "\<forall>u\<in>set (users orphan_db). user_employee_id u \<noteq> fb_manager_employee_id fb0"
    and mine: "filter (\<lambda>fb. fb_employee_id fb = ''E1'') (feedbacks orphan_db) = [fb0]"
    by (simp_all add: demo_defs)
  note t = get_feedback_history_unknown_manager [of id orphan_db "''E1''"]
  have a: "map out_feedback (get_feedback_history id orphan_db ''E1'') = [fb0]"
    using t [THEN conjunct1] mine by simp
  have b: "from_feedback fb0 ''Unknown'' (Some (comments_html id fb0))
      \<in> set (get_feedback_history id orphan_db ''E1'')"
    using t [THEN conjunct2, THEN conjunct1] mem own gone by blast
  obtain out where one: "get_feedback_history id orphan_db ''E1'' = [out]" and fb: "out_feedback out = fb0"
    using a by (auto simp: map_eq_Cons_conv)
  have "out_manager_name out = ''Unknown''"
    using t [THEN conjunct2, THEN conjunct2] one fb gone by simp
  then have c: "map out_manager_name (get_feedback_history id orphan_db ''E1'') = [''Unknown'']"
    by (simp add: one)
  show ?thesis
    using mem own gone a b c by (simp add: list_all_iff)
qed

end
